theory Spec2Isabelle
  imports Complex_Main "HOL-Library.Word" "HOL-Library.Log_Nat"
begin

unbundle bit_operations_syntax

section \<open>The message codec: Buffer.from and Buffer.toString\<close>

text \<open>
  The publish path of \<^verbatim>\<open>index.js\<close> encodes a payload with
  \<^verbatim>\<open>Buffer.from(m.data).toString('base64')\<close>, the pull path decodes it with
  \<^verbatim>\<open>Buffer.from(payload.message.data, 'base64').toString('ascii')\<close>.
  The four Buffer operations are Node's; they are modelled here as Node specifies them.
  A JavaScript string is an Isabelle \<open>string\<close>: one \<open>char\<close> per code unit, for
  the code units U+0000 to U+00FF. A buffer is a list of bytes.
\<close>

type_synonym byte = "8 word"

text \<open>\<^verbatim>\<open>Buffer.from(string)\<close>: the UTF-8 bytes of the string. A code unit below
  U+0080 is one byte, one from U+0080 to U+00FF is two.\<close>

definition utf8_bytes :: "char \<Rightarrow> byte list" where
  "utf8_bytes c =
     (let u = of_char c :: byte
      in if u < 0x80 then [u] else [0xC0 OR drop_bit 6 u, 0x80 OR (u AND 0x3F)])"

definition Buffer_from :: "string \<Rightarrow> byte list" where
  "Buffer_from s = concat (map utf8_bytes s)"

text \<open>\<^verbatim>\<open>buf.toString('base64')\<close>: three bytes become four characters of the
  table; one or two trailing bytes are padded with \<open>=\<close>.\<close>

definition base64_table :: string where
  "base64_table = ''ABCDEFGHIJKLMNOPQRSTUVWXYZabcdefghijklmnopqrstuvwxyz0123456789+/''"

definition table :: "byte \<Rightarrow> char" where
  "table i = base64_table ! unat i"

fun toString_base64 :: "byte list \<Rightarrow> string" where
  "toString_base64 (a # b # c # rest) =
     table (drop_bit 2 a) #
     table (push_bit 4 (a AND 0x03) OR drop_bit 4 b) #
     table (push_bit 2 (b AND 0x0F) OR drop_bit 6 c) #
     table (c AND 0x3F) # toString_base64 rest"
| "toString_base64 [a, b] =
     [table (drop_bit 2 a),
      table (push_bit 4 (a AND 0x03) OR drop_bit 4 b),
      table (push_bit 2 (b AND 0x0F)),
      CHR ''='']"
| "toString_base64 [a] =
     [table (drop_bit 2 a), table (push_bit 4 (a AND 0x03)), CHR ''='', CHR ''='']"
| "toString_base64 [] = []"

text \<open>\<^verbatim>\<open>Buffer.from(string, 'base64')\<close>: Node's decoder is lenient. It reads the
  characters of the standard and of the URL-safe alphabet, skips every other character,
  and stops at the first \<open>=\<close>; four characters become three bytes, and a last group
  of two or three characters becomes one or two bytes.\<close>

fun index_of :: "'a \<Rightarrow> 'a list \<Rightarrow> nat option" where
  "index_of x [] = None"
| "index_of x (y # ys) = (if x = y then Some 0 else map_option Suc (index_of x ys))"

definition unbase64 :: "char \<Rightarrow> byte option" where
  "unbase64 c =
     (if c = CHR ''-'' then Some 62
      else if c = CHR ''_'' then Some 63
      else map_option of_nat (index_of c base64_table))"

fun legal_characters :: "string \<Rightarrow> byte list" where
  "legal_characters [] = []"
| "legal_characters (c # cs) =
     (case unbase64 c of
        Some lo \<Rightarrow> lo # legal_characters cs
      | None \<Rightarrow> if c = CHR ''='' then [] else legal_characters cs)"

fun base64_decode_group :: "byte list \<Rightarrow> byte list" where
  "base64_decode_group (s0 # s1 # s2 # s3 # rest) =
     (push_bit 2 (s0 AND 0x3F) OR drop_bit 4 (s1 AND 0x30)) #
     (push_bit 4 (s1 AND 0x0F) OR drop_bit 2 (s2 AND 0x3C)) #
     (push_bit 6 (s2 AND 0x03) OR (s3 AND 0x3F)) # base64_decode_group rest"
| "base64_decode_group [s0, s1, s2] =
     [push_bit 2 (s0 AND 0x3F) OR drop_bit 4 (s1 AND 0x30),
      push_bit 4 (s1 AND 0x0F) OR drop_bit 2 (s2 AND 0x3C)]"
| "base64_decode_group [s0, s1] = [push_bit 2 (s0 AND 0x3F) OR drop_bit 4 (s1 AND 0x30)]"
| "base64_decode_group [s0] = []"
| "base64_decode_group [] = []"

definition Buffer_from_base64 :: "string \<Rightarrow> byte list" where
  "Buffer_from_base64 s = base64_decode_group (legal_characters s)"

text \<open>\<^verbatim>\<open>buf.toString('ascii')\<close>: Node clears the highest bit of every byte and
  reads the remaining seven bits as one character.\<close>

definition toString_ascii :: "byte list \<Rightarrow> string" where
  "toString_ascii bs = map (\<lambda>b. char_of (unat (b AND 0x7F))) bs"

text \<open>The expression of \<^verbatim>\<open>publish\<close> (index.js, line 152) and the expression of
  \<^verbatim>\<open>pullLongRunningJob\<close> (index.js, line 122).\<close>

definition publish_encode :: "string \<Rightarrow> string" where
  "publish_encode d = toString_base64 (Buffer_from d)"

definition pull_decode :: "string \<Rightarrow> string" where
  "pull_decode d = toString_ascii (Buffer_from_base64 d)"

section \<open>JavaScript numbers\<close>

text \<open>
  A JavaScript number is an IEEE 754 double. A finite double is modelled as the rational
  number it denotes, and a rational that is given where a number is expected denotes the
  double nearest to it, as a literal does. A double has 53 significant bits and a unit
  in the last place of at least \<open>2 powi - 1074\<close>; an operation gives the exact result
  rounded to the nearest double, ties to the even one. Doubles that are not finite are
  not modelled: a deadline is a finite number, and its quotient by 1000 is finite too.
\<close>

text \<open>The exponent \<open>e\<close> of a positive number: \<open>2 powi e \<le> x < 2 powi (e + 1)\<close>.\<close>

definition exponent :: "rat \<Rightarrow> int" where
  "exponent x =
     (let (p, q) = quotient_of x; c = bitlen p - bitlen q
      in if 2 powi c \<le> x then c else c - 1)"

text \<open>The exponent of the unit in the last place of the doubles next to \<open>x\<close>.\<close>

definition quantum :: "rat \<Rightarrow> int" where
  "quantum x = max (exponent \<bar>x\<bar> - 52) (- 1074)"

definition round_half_even :: "rat \<Rightarrow> int" where
  "round_half_even y =
     (let f = \<lfloor>y\<rfloor>; r = y - of_int f
      in if r < 1 / 2 then f else if 1 / 2 < r then f + 1 else if even f then f else f + 1)"

definition to_double :: "rat \<Rightarrow> rat" where
  "to_double x =
     (if x = 0 then 0
      else of_int (round_half_even (x / 2 powi quantum x)) * 2 powi quantum x)"

text \<open>The expression \<^verbatim>\<open>ackDeadline / 1000\<close> of \<^verbatim>\<open>modifyAckDeadline\<close> (index.js,
  line 76).\<close>

definition divided_by_1000 :: "rat \<Rightarrow> rat" where
  "divided_by_1000 x = to_double (to_double x / 1000)"

section \<open>The data model\<close>

text \<open>A rejected promise of the authentication step or of the HTTP request.\<close>

datatype error = AuthError string | RequestError string

text \<open>The REST resources \<^verbatim>\<open>PubsubMessage\<close> and \<^verbatim>\<open>ReceivedMessage\<close>, and the
  body of a pull response. \<^verbatim>\<open>results\<close> may be null and the field
  \<^verbatim>\<open>receivedMessages\<close> may be absent: both are \<open>None\<close>.\<close>

record pubsub_message =
  data :: string
  attributes :: "(string \<times> string) list"

record received_message =
  ackId :: string
  message :: pubsub_message

record pull_response =
  receivedMessages :: "received_message list option"

datatype body =
    PullBody bool int
  | ModifyAckDeadlineBody "string list" rat
  | AcknowledgeBody "string list"
  | PublishBody "pubsub_message list"

record req =
  uri :: string
  headers :: "(string \<times> string) list"
  body :: body
  http_method :: string
  json :: bool

text \<open>The lines the client passes to \<^verbatim>\<open>this.log\<close>, one constructor per template
  string of index.js.\<close>

datatype log_line =
    LogPull string req
  | LogModifyAckDeadline string "string list" rat
  | LogAcknowledge string "string list"
  | LogReceived string "pull_response option"
  | LogStarting string string
  | LogLoop string string
  | LogStopping string string

text \<open>A timer is the object \<^verbatim>\<open>setInterval\<close> returns. The model names the timers
  by numbers in the order they are handed out; every timer is a truthy value.\<close>

type_synonym timer = nat

text \<open>What the client does, in order: a line passed to \<^verbatim>\<open>this.log\<close>, a line on
  \<^verbatim>\<open>console.error\<close>, a request sent, a call of \<^verbatim>\<open>setInterval\<close> that returned a
  timer, a call of \<^verbatim>\<open>clearInterval\<close> on a timer; and what the process does with a
  rejected promise that no code handles.\<close>

datatype event =
    Log log_line
  | ConsoleError string
  | Request req
  | SetInterval timer
  | ClearInterval timer
  | UnhandledRejection error
  | ProcessExit

text \<open>
  What reading a property of the registry can give: nothing, a timer the client stored,
  or a value found on the prototype chain, of which only the truthiness matters.
\<close>

datatype js_value = Undefined | Falsy | Truthy | Timeout timer

fun truthy :: "js_value \<Rightarrow> bool" where
  "truthy Undefined = False"
| "truthy Falsy = False"
| "truthy Truthy = True"
| "truthy (Timeout _) = True"

text \<open>The names of the properties every object inherits from \<^verbatim>\<open>Object.prototype\<close>
  as Node defines it; each of them reads as a function, \<^verbatim>\<open>__proto__\<close> as the
  prototype itself. A handle is a string, as the ackId of a received message is.\<close>

definition object_prototype_names :: "string list" where
  "object_prototype_names =
     [''constructor'', ''__defineGetter__'', ''__defineSetter__'', ''hasOwnProperty'',
      ''__lookupGetter__'', ''__lookupSetter__'', ''isPrototypeOf'', ''propertyIsEnumerable'',
      ''toString'', ''valueOf'', ''__proto__'', ''toLocaleString'']"

text \<open>
  The fields of the class \<^verbatim>\<open>Client\<close>. \<^verbatim>\<open>longRunningJobTimers\<close> is the registry:
  a plain JavaScript object used as a dictionary from ackId to the timer that
  \<^verbatim>\<open>setInterval\<close> returned. The map holds what the client has assigned: under
  every other key the own property of that name, and under \<^verbatim>\<open>__proto__\<close> the
  prototype of the object, since an assignment to \<^verbatim>\<open>__proto__\<close> replaces the
  prototype and creates no property.
\<close>

record Client =
  BASE_URL :: string
  project :: string
  longRunningJobTimers :: "string \<rightharpoonup> timer"

text \<open>The closure that \<^verbatim>\<open>pullLongRunningJob\<close> hands to \<^verbatim>\<open>setInterval\<close>: the
  variables it captures, and the period.\<close>

record interval =
  job_subscription :: string
  job_ackId :: string
  job_extendBy :: rat
  job_period :: rat

text \<open>
  The world a call runs in: the client object, the timers of the event loop that are
  still running, the next timer \<^verbatim>\<open>setInterval\<close> will hand out, everything the
  client has done so far in order (lines logged, requests sent, timers started and
  cleared), the message objects of the caller, by address, and the runtime the process
  runs on.
\<close>

type_synonym addr = nat

text \<open>
  Two things are Node's and not the repository's, and are parameters of the model.
  What the process does with a promise that is rejected and that no code handles: it
  goes on (\<open>Warn\<close>: Node before version 15, or an application that handles the
  event), or it ends (\<open>Throw\<close>: the default from Node 15 on). And the properties of a
  timer object, which the registry inherits once a timer has become its prototype:
  \<open>timer_property t running k\<close> is what reading the property \<open>k\<close> of the timer
  \<open>t\<close> gives, while the timer is running or after it was cleared.
\<close>

datatype unhandled_rejections = Warn | Throw

record runtime =
  unhandled_rejections :: unhandled_rejections
  timer_property :: "timer \<Rightarrow> bool \<Rightarrow> string \<Rightarrow> js_value"

record world =
  self :: Client
  intervals :: "timer \<rightharpoonup> interval"
  next_timer :: timer
  trace :: "event list"
  objects :: "addr \<Rightarrow> pubsub_message"
  runtime :: runtime

text \<open>Every call to the outside is one step: the model runs one call of the client at a
  time, from its start to the settlement of its promise.\<close>

text \<open>What the outside gives one call of \<^verbatim>\<open>pull\<close>, \<^verbatim>\<open>modifyAckDeadline\<close>,
  \<^verbatim>\<open>acknowledge\<close> or \<^verbatim>\<open>publish\<close>: the outcome of obtaining the credentials (an
  error or the access token), and the outcome of the HTTP request (an error or the
  response body).\<close>

type_synonym 'a io = "(error + string) \<times> (error + 'a)"

section \<open>The runtime: timers, the log, requests\<close>

definition emit :: "event \<Rightarrow> world \<Rightarrow> world" where
  "emit e w = w\<lparr>trace := trace w @ [e]\<rparr>"

definition this_log :: "log_line \<Rightarrow> world \<Rightarrow> world" where
  "this_log l w = emit (Log l) w"

definition setInterval :: "interval \<Rightarrow> world \<Rightarrow> timer \<times> world" where
  "setInterval cb w =
     (let t = next_timer w
      in (t, emit (SetInterval t) (w\<lparr>intervals := (intervals w)(t \<mapsto> cb), next_timer := Suc t\<rparr>)))"

text \<open>\<^verbatim>\<open>clearInterval\<close> stops the timer it is given, and does nothing when it is given
  a value that is not a timer. (Node also takes the number a timer was converted to; the
  client converts no timer.)\<close>

fun clearInterval :: "js_value \<Rightarrow> world \<Rightarrow> world" where
  "clearInterval (Timeout t) w =
     emit (ClearInterval t) (w\<lparr>intervals := (intervals w)(t := None)\<rparr>)"
| "clearInterval _ w = w"

text \<open>A rejected promise that no code handles: the process reports it and, by the mode
  of the runtime, goes on or ends; when it ends, every timer ends with it. The event
  \<open>ProcessExit\<close> is then the last thing that happens: what the functions of the
  client give on a world whose trace ends with it has no counterpart in the code.\<close>

definition unhandled_rejection :: "error \<Rightarrow> world \<Rightarrow> world" where
  "unhandled_rejection err w =
     (let w1 = emit (UnhandledRejection err) w
      in case unhandled_rejections (runtime w1) of
           Warn \<Rightarrow> w1
         | Throw \<Rightarrow> emit ProcessExit (w1\<lparr>intervals := Map.empty\<rparr>))"

definition request :: "req \<Rightarrow> error + 'a \<Rightarrow> world \<Rightarrow> (error + 'a) \<times> world" where
  "request r outcome w = (outcome, emit (Request r) w)"

section \<open>The client (index.js)\<close>

text \<open>
  The class \<^verbatim>\<open>Client\<close> of index.js, method by method. The repository holds a
  second, older copy of the class without the log calls, whose
  \<^verbatim>\<open>pullLongRunningJob\<close> declares \<^verbatim>\<open>payload\<close> twice and reads a variable it never
  defines; index.js is the one modelled.

  \<^verbatim>\<open>addAuthentication\<close> rejects when the default credentials cannot be obtained,
  after a line on \<^verbatim>\<open>console.error\<close>. It ignores an error of
  \<^verbatim>\<open>getAccessToken\<close>: the header is then built from an undefined token, which is
  the outcome \<open>Inr ''undefined''\<close>.
\<close>

definition constructor :: "string \<Rightarrow> (addr \<Rightarrow> pubsub_message) \<Rightarrow> runtime \<Rightarrow> world" where
  "constructor p objs node =
     \<lparr>self = \<lparr>BASE_URL = ''https://pubsub.googleapis.com/v1'', project = p,
               longRunningJobTimers = Map.empty\<rparr>,
      intervals = Map.empty, next_timer = 0, trace = [], objects = objs, runtime = node\<rparr>"

definition addAuthentication ::
  "(string \<times> string) list \<Rightarrow> error + string \<Rightarrow> world \<Rightarrow>
     (error + (string \<times> string) list) \<times> world" where
  "addAuthentication hs auth w =
     (case auth of
        Inl err \<Rightarrow> (Inl err, emit (ConsoleError ''Failed to get the default credentials'') w)
      | Inr accessToken \<Rightarrow> (Inr (hs @ [(''Authorization'', ''Bearer '' @ accessToken)]), w))"

definition formatSubscription :: "Client \<Rightarrow> string \<Rightarrow> string" where
  "formatSubscription c subscription =
     ''projects/'' @ project c @ ''/subscriptions/'' @ subscription"

definition pull ::
  "string \<Rightarrow> bool \<Rightarrow> int \<Rightarrow> pull_response option io \<Rightarrow> world \<Rightarrow>
     (error + pull_response option) \<times> world" where
  "pull subscription returnImmediately maxMessages io w =
     (let u = BASE_URL (self w) @ ''/'' @ formatSubscription (self w) subscription @ '':pull''
      in case addAuthentication [] (fst io) w of
           (Inl err, w1) \<Rightarrow> (Inl err, w1)
         | (Inr hs, w1) \<Rightarrow>
             let b = PullBody returnImmediately maxMessages;
                 r = \<lparr>uri = u, headers = hs, body = b, http_method = ''POST'', json = True\<rparr>
             in request r (snd io) (this_log (LogPull subscription r) w1))"

definition modifyAckDeadline ::
  "string \<Rightarrow> string list \<Rightarrow> rat \<Rightarrow> unit io \<Rightarrow> world \<Rightarrow> (error + unit) \<times> world" where
  "modifyAckDeadline subscription ackIds ackDeadline io w =
     (let w0 = this_log (LogModifyAckDeadline subscription ackIds ackDeadline) w;
          u = BASE_URL (self w0) @ ''/'' @ formatSubscription (self w0) subscription
                @ '':modifyAckDeadline''
      in case addAuthentication [] (fst io) w0 of
           (Inl err, w1) \<Rightarrow> (Inl err, w1)
         | (Inr hs, w1) \<Rightarrow>
             let b = ModifyAckDeadlineBody ackIds (divided_by_1000 ackDeadline);
                 r = \<lparr>uri = u, headers = hs, body = b, http_method = ''POST'', json = True\<rparr>
             in request r (snd io) w1)"

definition acknowledge ::
  "string \<Rightarrow> string list \<Rightarrow> unit io \<Rightarrow> world \<Rightarrow> (error + unit) \<times> world" where
  "acknowledge subscription ackIds io w =
     (let w0 = this_log (LogAcknowledge subscription ackIds) w;
          u = BASE_URL (self w0) @ ''/'' @ formatSubscription (self w0) subscription
                @ '':acknowledge''
      in case addAuthentication [] (fst io) w0 of
           (Inl err, w1) \<Rightarrow> (Inl err, w1)
         | (Inr hs, w1) \<Rightarrow>
             let b = AcknowledgeBody ackIds;
                 r = \<lparr>uri = u, headers = hs, body = b, http_method = ''POST'', json = True\<rparr>
             in request r (snd io) w1)"

text \<open>The options of \<^verbatim>\<open>pullLongRunningJob\<close>; an option the caller leaves out is
  \<open>None\<close> and takes the default 10000.\<close>

record job_options =
  extendBy :: "rat option"
  withPeriod :: "rat option"

definition pullLongRunningJob ::
  "string \<Rightarrow> job_options \<Rightarrow> pull_response option io \<Rightarrow> unit io \<Rightarrow> world \<Rightarrow>
     (error + received_message option) \<times> world" where
  "pullLongRunningJob subscription opts io_pull io_extend w =
     (let extend_by = (case extendBy opts of None \<Rightarrow> 10000 | Some x \<Rightarrow> x);
          with_period = (case withPeriod opts of None \<Rightarrow> 10000 | Some x \<Rightarrow> x)
      in case pull subscription True 1 io_pull w of
           (Inl err, w1) \<Rightarrow> (Inl err, w1)
         | (Inr results, w1) \<Rightarrow>
             let w2 = this_log (LogReceived subscription results) w1
             in case results of
                  None \<Rightarrow> (Inr None, w2)
                | Some response \<Rightarrow>
                    (case receivedMessages response of
                       None \<Rightarrow> (Inr None, w2)
                     | Some [] \<Rightarrow> (Inr None, w2)
                     | Some (payload # _) \<Rightarrow>
                         let w3 = this_log (LogStarting subscription (ackId payload)) w2;
                             (t, w4) = setInterval
                               \<lparr>job_subscription = subscription, job_ackId = ackId payload,
                                job_extendBy = extend_by, job_period = with_period\<rparr> w3;
                             w5 = w4\<lparr>self := (self w4)\<lparr>longRunningJobTimers :=
                                    (longRunningJobTimers (self w4))(ackId payload \<mapsto> t)\<rparr>\<rparr>
                         in case modifyAckDeadline subscription [ackId payload] extend_by
                                   io_extend w5 of
                              (Inl err, w6) \<Rightarrow> (Inl err, w6)
                            | (Inr _, w6) \<Rightarrow>
                                (Inr (Some (payload\<lparr>message := (message payload)
                                   \<lparr>data := pull_decode (data (message payload))\<rparr>\<rparr>)), w6)))"

text \<open>
  One firing of the callback of a timer: the event loop fires only timers that are still
  running (\<open>None\<close>: this timer cannot fire). The callback logs, calls
  \<^verbatim>\<open>modifyAckDeadline\<close> and drops the promise it returns; when that promise is
  rejected, no code handles it.
\<close>

definition tick :: "timer \<Rightarrow> unit io \<Rightarrow> world \<Rightarrow> world option" where
  "tick t io w =
     (case intervals w t of
        None \<Rightarrow> None
      | Some cb \<Rightarrow>
          let w1 = this_log (LogLoop (job_subscription cb) (job_ackId cb)) w
          in case modifyAckDeadline (job_subscription cb) [job_ackId cb]
                    (job_extendBy cb) io w1 of
               (Inl err, w2) \<Rightarrow> Some (unhandled_rejection err w2)
             | (Inr _, w2) \<Rightarrow> Some w2)"

text \<open>
  \<^verbatim>\<open>this.longRunningJobTimers[ackId]\<close>: the timer the client has assigned under the
  key; failing that, what the prototype chain gives. The chain is the timer that an
  assignment to \<^verbatim>\<open>__proto__\<close> has made the prototype, if there is one, and then
  \<^verbatim>\<open>Object.prototype\<close>.
\<close>

definition longRunningJobTimers_get :: "world \<Rightarrow> string \<Rightarrow> js_value" where
  "longRunningJobTimers_get w k =
     (case longRunningJobTimers (self w) k of
        Some t \<Rightarrow> Timeout t
      | None \<Rightarrow>
          (case (case longRunningJobTimers (self w) ''__proto__'' of
                   None \<Rightarrow> Undefined
                 | Some p \<Rightarrow> timer_property (runtime w) p (intervals w p \<noteq> None) k) of
             Undefined \<Rightarrow> if k \<in> set object_prototype_names then Truthy else Undefined
           | v \<Rightarrow> v))"

text \<open>\<^verbatim>\<open>delete this.longRunningJobTimers[ackId]\<close> removes the own property of that
  name; \<^verbatim>\<open>__proto__\<close> is not an own property, and the prototype stays.\<close>

definition longRunningJobTimers_delete :: "string \<Rightarrow> (string \<rightharpoonup> timer) \<Rightarrow> (string \<rightharpoonup> timer)" where
  "longRunningJobTimers_delete k m = (if k = ''__proto__'' then m else m(k := None))"

definition acknowledgeLongRunningJob ::
  "string \<Rightarrow> string \<Rightarrow> unit io \<Rightarrow> world \<Rightarrow> (error + unit) \<times> world" where
  "acknowledgeLongRunningJob subscription ack_id io w =
     (let w3 = (if truthy (longRunningJobTimers_get w ack_id)
                then let w1 = this_log (LogStopping subscription ack_id) w;
                         w2 = clearInterval (longRunningJobTimers_get w1 ack_id) w1
                     in w2\<lparr>self := (self w2)\<lparr>longRunningJobTimers :=
                            longRunningJobTimers_delete ack_id (longRunningJobTimers (self w2))\<rparr>\<rparr>
                else w)
      in acknowledge subscription [ack_id] io w3)"

definition formatTopic :: "Client \<Rightarrow> string \<Rightarrow> string" where
  "formatTopic c topic = ''projects/'' @ project c @ ''/topics/'' @ topic"

text \<open>\<^verbatim>\<open>publish\<close> takes an array of message objects: a list of addresses. The
  callback of \<^verbatim>\<open>messages.map\<close> assigns to \<^verbatim>\<open>m.data\<close> and returns the same
  object.\<close>

definition encode_in_place :: "addr \<Rightarrow> world \<Rightarrow> world" where
  "encode_in_place m w =
     w\<lparr>objects := (objects w)(m := (objects w m)\<lparr>data := publish_encode (data (objects w m))\<rparr>)\<rparr>"

definition publish ::
  "string \<Rightarrow> addr list \<Rightarrow> string list io \<Rightarrow> world \<Rightarrow> (error + string list) \<times> world" where
  "publish topic messages io w =
     (let u = BASE_URL (self w) @ ''/'' @ formatTopic (self w) topic @ '':publish''
      in case addAuthentication [] (fst io) w of
           (Inl err, w1) \<Rightarrow> (Inl err, w1)
         | (Inr hs, w1) \<Rightarrow>
             let w2 = fold encode_in_place messages w1;
                 b = PublishBody (map (objects w2) messages);
                 r = \<lparr>uri = u, headers = hs, body = b, http_method = ''POST'', json = True\<rparr>
             in request r (snd io) w2)"

section \<open>Observations of a world\<close>

text \<open>The requests sent and the lines logged so far, in order; the value of the field
  \<^verbatim>\<open>ackDeadlineSeconds\<close> of a request body; the timers cleared, the lines written on
  \<^verbatim>\<open>console.error\<close> and the rejections that no code handled, in order.\<close>

fun requests_of :: "event list \<Rightarrow> req list" where
  "requests_of [] = []"
| "requests_of (Request r # es) = r # requests_of es"
| "requests_of (_ # es) = requests_of es"

fun logged_of :: "event list \<Rightarrow> log_line list" where
  "logged_of [] = []"
| "logged_of (Log l # es) = l # logged_of es"
| "logged_of (_ # es) = logged_of es"

fun is_Log :: "event \<Rightarrow> bool" where
  "is_Log (Log _) = True"
| "is_Log _ = False"

fun ackDeadlineSeconds :: "body \<Rightarrow> rat option" where
  "ackDeadlineSeconds (ModifyAckDeadlineBody _ s) = Some s"
| "ackDeadlineSeconds _ = None"

fun cleared_of :: "event list \<Rightarrow> timer list" where
  "cleared_of [] = []"
| "cleared_of (ClearInterval t # es) = t # cleared_of es"
| "cleared_of (_ # es) = cleared_of es"

fun console_of :: "event list \<Rightarrow> string list" where
  "console_of [] = []"
| "console_of (ConsoleError s # es) = s # console_of es"
| "console_of (_ # es) = console_of es"

fun rejections_of :: "event list \<Rightarrow> error list" where
  "rejections_of [] = []"
| "rejections_of (UnhandledRejection err # es) = err # rejections_of es"
| "rejections_of (_ # es) = rejections_of es"

text \<open>The error a call to the outside ends with, if it fails: at the credentials, or at
  the request.\<close>

fun failure :: "'a io \<Rightarrow> error option" where
  "failure (Inl err, _) = Some err"
| "failure (Inr _, Inl err) = Some err"
| "failure (Inr _, Inr _) = None"

text \<open>The messages a pull response holds: none when the response is null, when it has no
  field \<^verbatim>\<open>receivedMessages\<close>, or when that array is empty.\<close>

definition received :: "pull_response option \<Rightarrow> received_message list" where
  "received results =
     (case results of
        None \<Rightarrow> []
      | Some response \<Rightarrow> (case receivedMessages response of None \<Rightarrow> [] | Some ms \<Rightarrow> ms))"

text \<open>The pull response that holds the messages \<open>ms\<close>.\<close>

definition response_of :: "received_message list \<Rightarrow> pull_response option" where
  "response_of ms = Some \<lparr>receivedMessages = Some ms\<rparr>"

text \<open>A world without the lines logged: the client object, the timers, the requests and
  the timer calls.\<close>

definition without_log :: "world \<Rightarrow> world" where
  "without_log w = w\<lparr>trace := filter (\<lambda>e. \<not> is_Log e) (trace w)\<rparr>"

text \<open>The lines logged between a world and a later one.\<close>

definition logged_since :: "world \<Rightarrow> world \<Rightarrow> log_line list" where
  "logged_since w w' = logged_of (drop (length (trace w)) (trace w'))"

section \<open>Example executions\<close>

text \<open>The scenario of the specification: subscription \<open>jobs\<close> holds one message with
  ackId \<open>A1\<close> and payload base64(\<open>hello\<close>); the job is started with
  \<^verbatim>\<open>{extendBy: 15000, withPeriod: 10000}\<close>; every call to the outside succeeds.\<close>

definition succeeds :: "'a \<Rightarrow> 'a io" where
  "succeeds x = (Inr ''token'', Inr x)"

definition message_A1 :: received_message where
  "message_A1 = \<lparr>ackId = ''A1'', message = \<lparr>data = ''aGVsbG8='', attributes = []\<rparr>\<rparr>"

definition message_B2 :: received_message where
  "message_B2 = \<lparr>ackId = ''B2'', message = \<lparr>data = ''d29ybGQ='', attributes = []\<rparr>\<rparr>"

definition scenario_options :: job_options where
  "scenario_options = \<lparr>extendBy = Some 15000, withPeriod = Some 10000\<rparr>"

definition caller_objects :: "addr \<Rightarrow> pubsub_message" where
  "caller_objects a =
     (if a = 0 then \<lparr>data = ''hello'', attributes = [(''kind'', ''greeting'')]\<rparr>
      else \<lparr>data = [], attributes = []\<rparr>)"

text \<open>The runtime of the examples lets the process go on after an unhandled rejection;
  none of the examples reads a property of a timer object.\<close>

definition example_runtime :: runtime where
  "example_runtime = \<lparr>unhandled_rejections = Warn, timer_property = (\<lambda>t running k. Undefined)\<rparr>"

definition fresh :: world where
  "fresh = constructor ''p'' caller_objects example_runtime"

text \<open>The client after one long running job for \<open>A1\<close> has been started, and after a
  second pull has returned a message with the same ackId \<open>A1\<close> while the first job
  was still registered.\<close>

definition started_A1 :: world where
  "started_A1 =
     snd (pullLongRunningJob ''jobs'' scenario_options (succeeds (response_of [message_A1]))
            (succeeds ()) fresh)"

definition started_A1_twice :: world where
  "started_A1_twice =
     snd (pullLongRunningJob ''jobs'' scenario_options (succeeds (response_of [message_A1]))
            (succeeds ()) started_A1)"

definition acknowledged_A1 :: world where
  "acknowledged_A1 =
     snd (acknowledgeLongRunningJob ''jobs'' ''A1'' (succeeds ()) started_A1_twice)"

text \<open>The same client on a runtime that ends the process at an unhandled rejection.\<close>

definition started_A1_strict :: world where
  "started_A1_strict =
     started_A1\<lparr>runtime := (runtime started_A1)\<lparr>unhandled_rejections := Throw\<rparr>\<rparr>"





section \<open>The codec round trip\<close>

lemma byte_masks:
  "(0x3F::byte) = mask 6" "(0x03::byte) = mask 2" "(0x0F::byte) = mask 4"
  "(0x7F::byte) = mask 7" "(0x30::byte) = push_bit 4 (mask 2)"
  "(0x3C::byte) = push_bit 2 (mask 4)"
  by (simp_all add: mask_eq_exp_minus_1)

lemma bit_index_cases:
  "n < LENGTH(8) \<Longrightarrow>
     n \<in> {0, 1, 2, 3, 4, 5, 6, 7::nat}"
  by (simp, arith)

text \<open>Each byte comes back from the six-bit groups it was split into.\<close>

lemma first_byte:
  "push_bit 2 (drop_bit 2 a AND 0x3F)
     OR drop_bit 4 ((push_bit 4 (a AND 0x03) OR drop_bit 4 b) AND 0x30) = (a::byte)"
  unfolding byte_masks
  by (rule bit_word_eqI, drule bit_index_cases, elim insertE emptyE; simp add: bit_simps)

lemma second_byte:
  "push_bit 4 ((push_bit 4 (a AND 0x03) OR drop_bit 4 b) AND 0x0F)
     OR drop_bit 2 ((push_bit 2 (b AND 0x0F) OR drop_bit 6 c) AND 0x3C) = (b::byte)"
  unfolding byte_masks
  by (rule bit_word_eqI, drule bit_index_cases, elim insertE emptyE; simp add: bit_simps)

lemma third_byte:
  "push_bit 6 ((push_bit 2 (b AND 0x0F) OR drop_bit 6 c) AND 0x03)
     OR ((c AND 0x3F) AND 0x3F) = (c::byte)"
  unfolding byte_masks
  by (rule bit_word_eqI, drule bit_index_cases, elim insertE emptyE; simp add: bit_simps)

lemma first_byte_padded:
  "push_bit 2 (drop_bit 2 a AND 0x3F) OR drop_bit 4 (push_bit 4 (a AND 0x03) AND 0x30) = (a::byte)"
  unfolding byte_masks
  by (rule bit_word_eqI, drule bit_index_cases, elim insertE emptyE; simp add: bit_simps)

lemma second_byte_padded:
  "push_bit 4 ((push_bit 4 (a AND 0x03) OR drop_bit 4 b) AND 0x0F)
     OR drop_bit 2 (push_bit 2 (b AND 0x0F) AND 0x3C) = (b::byte)"
  unfolding byte_masks
  by (rule bit_word_eqI, drule bit_index_cases, elim insertE emptyE; simp add: bit_simps)

text \<open>Every six-bit group is an index into the table.\<close>

lemma six_bits: "x AND mask 6 = x \<Longrightarrow> x < (64::byte)"
  using mask_eq_iff_w2p [of 6 x] by (simp add: word_size)

lemma group_less:
  "drop_bit 2 (a::byte) < 64"
  "push_bit 4 (a AND 0x03) OR drop_bit 4 b < (64::byte)"
  "push_bit 2 (b AND 0x0F) OR drop_bit 6 c < (64::byte)"
  "c AND 0x3F < (64::byte)"
  "push_bit 4 (a AND 0x03) < (64::byte)"
  "push_bit 2 (b AND 0x0F) < (64::byte)"
  unfolding byte_masks
  by (rule six_bits, rule bit_word_eqI, drule bit_index_cases, elim insertE emptyE;
      auto simp add: bit_simps dest: bit_imp_le_length)+

lemma index_of_nth: "distinct xs \<Longrightarrow> i < length xs \<Longrightarrow> index_of (xs ! i) xs = Some i"
proof (induction xs arbitrary: i)
  case Nil
  then show ?case by simp
next
  case (Cons x xs)
  then show ?case by (cases i) auto
qed

lemma unbase64_table:
  assumes "s < 64"
  shows "unbase64 (table s) = Some s"
proof -
  have len: "length base64_table = 64" and dist: "distinct base64_table"
    by (simp_all add: base64_table_def)
  from assms have u: "unat s < 64"
    by (simp add: word_less_nat_alt)
  then have "table s \<in> set base64_table"
    by (simp add: table_def len)
  moreover have "CHR ''-'' \<notin> set base64_table" "CHR ''_'' \<notin> set base64_table"
    by (simp_all add: base64_table_def)
  ultimately have ne: "table s \<noteq> CHR ''-''" "table s \<noteq> CHR ''_''"
    by auto
  have "index_of (table s) base64_table = Some (unat s)"
    unfolding table_def using u dist by (intro index_of_nth) (simp_all add: len)
  with ne show ?thesis
    by (simp add: unbase64_def)
qed

lemma legal_characters_table:
  "s < 64 \<Longrightarrow> legal_characters (table s # cs) = s # legal_characters cs"
  by (simp add: unbase64_table)

lemma legal_characters_pad: "legal_characters (CHR ''='' # cs) = []"
  by (simp add: unbase64_def base64_table_def)

lemma base64_roundtrip: "Buffer_from_base64 (toString_base64 bs) = bs"
  unfolding Buffer_from_base64_def
proof (induction bs rule: toString_base64.induct)
  case (1 a b c rest)
  then show ?case
    by (simp only: toString_base64.simps legal_characters_table [OF group_less(1)]
        legal_characters_table [OF group_less(2)] legal_characters_table [OF group_less(3)]
        legal_characters_table [OF group_less(4)] base64_decode_group.simps
        first_byte second_byte third_byte)
next
  case (2 a b)
  show ?case
    by (simp only: toString_base64.simps legal_characters_table [OF group_less(1)]
        legal_characters_table [OF group_less(2)] legal_characters_table [OF group_less(6)]
        legal_characters_pad base64_decode_group.simps first_byte second_byte_padded)
next
  case (3 a)
  show ?case
    by (simp only: toString_base64.simps legal_characters_table [OF group_less(1)]
        legal_characters_table [OF group_less(5)]
        legal_characters_pad base64_decode_group.simps first_byte_padded)
next
  case 4
  show ?case by simp
qed

text \<open>A character below U+0080 is one byte, and clearing the highest bit of that byte
  changes nothing.\<close>

lemma of_char_byte_less:
  assumes "(of_char c :: nat) < 128"
  shows "(of_char c :: byte) < 0x80"
proof -
  have "(of_nat (of_char c) :: byte) < 128"
    using assms by (simp add: word_less_nat_alt unsigned_of_nat take_bit_nat_eq_self)
  then show ?thesis
    by (simp only: of_nat_of_char)
qed

lemma ascii_char:
  assumes "(of_char c :: nat) < 128"
  shows "char_of (unat ((of_char c :: byte) AND 0x7F)) = c"
proof -
  have "(of_char c :: byte) < 2 ^ 7"
    using of_char_byte_less [OF assms] by simp
  then have "(of_char c :: byte) AND 0x7F = of_char c"
    using less_mask_eq [of "of_char c :: byte" 7] by (simp add: byte_masks)
  moreover have "unat (of_char c :: byte) = of_char c"
    using assms unfolding of_nat_of_char [where ?'a = byte, symmetric]
    by (simp add: unsigned_of_nat take_bit_nat_eq_self)
  ultimately show ?thesis
    by simp
qed

lemma ascii_roundtrip:
  "\<forall>c\<in>set s. (of_char c :: nat) < 128 \<Longrightarrow> toString_ascii (Buffer_from s) = s"
  by (induction s)
     (simp_all add: toString_ascii_def Buffer_from_def utf8_bytes_def of_char_byte_less ascii_char)

text \<open>
  C2. The claim: for every payload \<open>P\<close>, decoding (as the pull path does) the
  encoding of \<open>P\<close> (as the publish path does) gives \<open>P\<close> again. It fails for a
  payload with a character outside ASCII: the publish path writes the UTF-8 bytes of
  U+00E9, C3 A9, and the pull path reads each byte with its highest bit cleared, 43 29,
  which is the text \<open>C)\<close>.
\<close>

theorem publish_pull_roundtrip_counterexample:
  "pull_decode (publish_encode [CHR 0xE9]) = ''C)'' \<and>
   pull_decode (publish_encode [CHR 0xE9]) \<noteq> [CHR 0xE9]"
  by code_simp

text \<open>
  C2, as amended: for every payload \<open>P\<close> whose characters are all 7-bit ASCII
  (below U+0080), the empty payload included, decoding the encoding of \<open>P\<close> gives
  \<open>P\<close> again.
\<close>

theorem publish_pull_roundtrip:
  assumes "\<forall>c\<in>set P. (of_char c :: nat) < 128"
  shows "pull_decode (publish_encode P) = P"
  using assms
  by (simp add: pull_decode_def publish_encode_def base64_roundtrip ascii_roundtrip)

theorem publish_pull_roundtrip_witness:
  "pull_decode (publish_encode ''hello'') = ''hello'' \<and> publish_encode ''hello'' = ''aGVsbG8=''
   \<and> pull_decode (publish_encode '''') = ''''"
proof -
  have "pull_decode (publish_encode ''hello'') = ''hello''"
    by (rule publish_pull_roundtrip) simp
  moreover have "pull_decode (publish_encode '''') = ''''"
    by (rule publish_pull_roundtrip) simp
  moreover have "publish_encode ''hello'' = ''aGVsbG8=''"
    by code_simp
  ultimately show ?thesis
    by simp
qed

section \<open>Division by 1000 in doubles\<close>

lemma powi_less_cancel: "(2::rat) powi a < 2 powi b \<Longrightarrow> a < b"
  by (rule ccontr) (use power_int_increasing [of b a "2::rat"] in simp)

lemma exponent_less:
  assumes "0 < x" and "x < 2 powi n"
  shows "exponent x < n"
proof -
  obtain p q where pq: "quotient_of x = (p, q)"
    by (cases "quotient_of x")
  then have q: "0 < q" and x: "x = of_int p / of_int q"
    using quotient_of_denom_pos [OF pq] quotient_of_div [OF pq] by simp_all
  with assms(1) have p: "0 < p"
    by (simp add: zero_less_divide_iff)
  define c where "c = bitlen p - bitlen q"
  have low: "2 powi (c - 1) < x"
  proof -
    have "(2::rat) powi (bitlen p - 1) \<le> of_int p"
    proof -
      have "2 ^ nat (bitlen p - 1) \<le> p"
        using bitlen_bounds [OF p] by simp
      then have "(of_int (2 ^ nat (bitlen p - 1)) :: rat) \<le> of_int p"
        by (simp only: of_int_le_iff)
      moreover have "0 \<le> bitlen p - 1"
        using p by (simp add: bitlen_alt_def)
      ultimately show ?thesis
        by (simp add: power_int_def)
    qed
    moreover have "(of_int q :: rat) < 2 powi bitlen q"
    proof -
      have "q < 2 ^ nat (bitlen q)"
        using bitlen_bounds [OF q] by simp
      then have "(of_int q :: rat) < of_int (2 ^ nat (bitlen q))"
        by (simp only: of_int_less_iff)
      then show ?thesis
        using bitlen_nonneg [of q] by (simp add: power_int_def)
    qed
    moreover have "(2::rat) powi (c - 1) = 2 powi (bitlen p - 1) / 2 powi bitlen q"
      by (simp add: c_def power_int_diff)
    ultimately show ?thesis
      unfolding x using p q
      by (simp add: frac_less2)
  qed
  show ?thesis
  proof (cases "2 powi c \<le> x")
    case True
    then have "exponent x = c"
      by (simp add: exponent_def pq c_def)
    moreover from True assms(2) have "(2::rat) powi c < 2 powi n"
      by simp
    ultimately show ?thesis
      using powi_less_cancel by simp
  next
    case False
    then have "exponent x = c - 1"
      by (simp add: exponent_def pq c_def)
    moreover from low assms(2) have "(2::rat) powi (c - 1) < 2 powi n"
      by simp
    ultimately show ?thesis
      using powi_less_cancel by simp
  qed
qed

lemma round_half_even_of_int: "round_half_even (of_int m) = m"
  by (simp add: round_half_even_def)

lemma round_half_even_error: "\<bar>of_int (round_half_even y) - y\<bar> \<le> 1 / 2"
  unfolding round_half_even_def Let_def
  by (auto simp: abs_if not_less) linarith+

lemma quantum_le:
  assumes "x \<noteq> 0" and "\<bar>x\<bar> < 2 powi n" and "- 1021 \<le> n"
  shows "quantum x \<le> n - 53"
proof -
  from assms(1,2) have "exponent \<bar>x\<bar> < n"
    by (intro exponent_less) simp_all
  with assms(3) show ?thesis
    by (simp add: quantum_def)
qed

lemma to_double_of_int:
  assumes "\<bar>n\<bar> < 2 ^ 53"
  shows "to_double (of_int n) = of_int n"
proof (cases "n = 0")
  case True
  then show ?thesis by (simp add: to_double_def)
next
  case False
  define x :: rat where "x = of_int n"
  have x0: "x \<noteq> 0"
    using False by (simp add: x_def)
  have "\<bar>x\<bar> = of_int \<bar>n\<bar>"
    by (simp add: x_def)
  also have "\<dots> < of_int (2 ^ 53)"
    using assms by (simp only: of_int_less_iff)
  finally have "\<bar>x\<bar> < 2 powi 53"
    by simp
  from quantum_le [OF x0 this] have q: "quantum x \<le> 0"
    by simp
  define k where "k = nat (- quantum x)"
  have pw: "(2::rat) powi quantum x = 1 / 2 ^ k"
    using q by (simp add: power_int_def k_def power_one_over)
  have "x / 2 powi quantum x = of_int (n * 2 ^ k)"
    unfolding pw by (simp add: x_def)
  then have "round_half_even (x / 2 powi quantum x) = n * 2 ^ k"
    by (simp only: round_half_even_of_int)
  then have "to_double x = of_int (n * 2 ^ k) * (1 / 2 ^ k)"
    using x0 by (simp add: to_double_def pw)
  then show ?thesis
    by (simp add: x_def)
qed

lemma to_double_error:
  "\<bar>to_double x - x\<bar> \<le> 2 powi quantum x / 2"
proof (cases "x = 0")
  case True
  then show ?thesis by (simp add: to_double_def)
next
  case False
  define u :: rat where "u = 2 powi quantum x"
  have u: "0 < u"
    by (simp add: u_def)
  have "to_double x - x = (of_int (round_half_even (x / u)) - x / u) * u"
    using False u by (simp add: to_double_def u_def algebra_simps)
  then have "\<bar>to_double x - x\<bar> = \<bar>of_int (round_half_even (x / u)) - x / u\<bar> * u"
    using u by (simp add: abs_mult)
  also have "\<dots> \<le> 1 / 2 * u"
    using round_half_even_error [of "x / u"] u by (intro mult_right_mono) simp_all
  finally show ?thesis
    by (simp add: u_def)
qed

lemma divided_by_1000_multiple:
  assumes "\<bar>1000 * k\<bar> < (2::int) ^ 53"
  shows "divided_by_1000 (of_int (1000 * k)) = of_int k"
proof -
  from assms have k: "\<bar>k\<bar> < 2 ^ 53"
    by simp
  have "divided_by_1000 (of_int (1000 * k)) = to_double (of_int (1000 * k) / 1000)"
    by (simp only: divided_by_1000_def to_double_of_int [OF assms])
  also have "(of_int (1000 * k) :: rat) / 1000 = of_int k"
    by simp
  finally show ?thesis
    by (simp only: to_double_of_int [OF k])
qed

lemma divided_by_1000_fraction:
  assumes "\<bar>d\<bar> < (2::int) ^ 53" and "\<not> 1000 dvd d"
  shows "divided_by_1000 (of_int d) \<notin> \<int>"
proof
  define x :: rat where "x = of_int d / 1000"
  assume "divided_by_1000 (of_int d) \<in> \<int>"
  then obtain j :: int where j: "to_double x = of_int j"
    by (auto simp: divided_by_1000_def to_double_of_int [OF assms(1)] x_def elim: Ints_cases)
  from assms(2) have "d \<noteq> 0"
    by auto
  then have x0: "x \<noteq> 0"
    by (simp add: x_def)
  have "\<bar>x\<bar> = of_int \<bar>d\<bar> / 1000"
    by (simp add: x_def)
  also have "\<dots> < of_int (2 ^ 53) / 1000"
    using assms(1) by (simp only: of_int_less_iff divide_strict_right_mono zero_less_numeral)
  also have "\<dots> < 2 powi 44"
    by simp
  finally have "quantum x \<le> - 9"
    using quantum_le [OF x0, of 44] by simp
  then have "(2::rat) powi quantum x \<le> 2 powi (- 9)"
    by (intro power_int_increasing) simp_all
  with to_double_error [of x] have "\<bar>of_int j - x\<bar> \<le> 1 / 1024"
    by (simp add: j)
  then have "\<bar>of_int (1000 * j - d) :: rat\<bar> \<le> 1000 / 1024"
    by (simp add: x_def abs_if split: if_splits)
  then have "\<bar>of_int (1000 * j - d) :: rat\<bar> < of_int 1"
    by simp
  then have "\<bar>1000 * j - d\<bar> < 1"
    by (simp only: of_int_abs [symmetric] of_int_less_iff)
  then have "d = 1000 * j"
    by simp
  with assms(2) show False
    by simp
qed

text \<open>A whole number of milliseconds below \<open>2 ^ 53\<close> gives a whole number of seconds
  exactly when it is a multiple of 1000.\<close>

lemma divided_by_1000_whole:
  assumes "\<bar>d\<bar> < (2::int) ^ 53"
  shows "(divided_by_1000 (of_int d) \<in> \<int>) = (1000 dvd d)"
    and "1000 dvd d \<Longrightarrow> divided_by_1000 (of_int d) = of_int (d div 1000)"
proof -
  show m: "divided_by_1000 (of_int d) = of_int (d div 1000)" if "1000 dvd d"
  proof -
    from that obtain k where k: "d = 1000 * k" ..
    with assms show ?thesis
      using divided_by_1000_multiple [of k] by simp
  qed
  show "(divided_by_1000 (of_int d) \<in> \<int>) = (1000 dvd d)"
    using m divided_by_1000_fraction [OF assms] by auto
qed

lemma seconds_15000: "divided_by_1000 15000 = 15"
  using divided_by_1000_multiple [of 15] by simp

lemma seconds_1500: "divided_by_1000 1500 = 3 / 2"
  by code_simp

section \<open>The calls to the outside, step by step\<close>

lemmas runtime_defs = emit_def this_log_def setInterval_def request_def
  addAuthentication_def

lemma requests_of_append: "requests_of (xs @ ys) = requests_of xs @ requests_of ys"
  by (induction xs rule: requests_of.induct) simp_all

lemma logged_of_append: "logged_of (xs @ ys) = logged_of xs @ logged_of ys"
  by (induction xs rule: logged_of.induct) simp_all

lemma cleared_of_append: "cleared_of (xs @ ys) = cleared_of xs @ cleared_of ys"
  by (induction xs rule: cleared_of.induct) simp_all

lemma pull_authenticated:
  "pull s ri mm (Inr tok, out) w =
     (let r = \<lparr>uri = BASE_URL (self w) @ ''/'' @ formatSubscription (self w) s @ '':pull'',
                headers = [(''Authorization'', ''Bearer '' @ tok)],
                body = PullBody ri mm, http_method = ''POST'', json = True\<rparr>
      in (out, w\<lparr>trace := trace w @ [Log (LogPull s r), Request r]\<rparr>))"
  by (simp add: pull_def runtime_defs Let_def)

lemma pull_unauthenticated:
  "pull s ri mm (Inl err, out) w =
     (Inl err, w\<lparr>trace := trace w @ [ConsoleError ''Failed to get the default credentials'']\<rparr>)"
  by (simp add: pull_def runtime_defs)

lemma modifyAckDeadline_authenticated:
  "modifyAckDeadline s ids d (Inr tok, out) w =
     (out, w\<lparr>trace := trace w @
        [Log (LogModifyAckDeadline s ids d),
         Request \<lparr>uri = BASE_URL (self w) @ ''/'' @ formatSubscription (self w) s
                      @ '':modifyAckDeadline'',
                  headers = [(''Authorization'', ''Bearer '' @ tok)],
                  body = ModifyAckDeadlineBody ids (divided_by_1000 d),
                  http_method = ''POST'', json = True\<rparr>]\<rparr>)"
  by (simp add: modifyAckDeadline_def runtime_defs Let_def)

lemma modifyAckDeadline_unauthenticated:
  "modifyAckDeadline s ids d (Inl err, out) w =
     (Inl err, w\<lparr>trace := trace w @
        [Log (LogModifyAckDeadline s ids d),
         ConsoleError ''Failed to get the default credentials'']\<rparr>)"
  by (simp add: modifyAckDeadline_def runtime_defs Let_def)

lemma modifyAckDeadline_frame:
  "self (snd (modifyAckDeadline s ids d io w)) = self w"
  "intervals (snd (modifyAckDeadline s ids d io w)) = intervals w"
  "next_timer (snd (modifyAckDeadline s ids d io w)) = next_timer w"
  "objects (snd (modifyAckDeadline s ids d io w)) = objects w"
  by (cases io; cases "fst io";
      simp add: modifyAckDeadline_authenticated modifyAckDeadline_unauthenticated)+

lemma acknowledge_authenticated:
  "acknowledge s ids (Inr tok, out) w =
     (out, w\<lparr>trace := trace w @
        [Log (LogAcknowledge s ids),
         Request \<lparr>uri = BASE_URL (self w) @ ''/'' @ formatSubscription (self w) s
                      @ '':acknowledge'',
                  headers = [(''Authorization'', ''Bearer '' @ tok)],
                  body = AcknowledgeBody ids,
                  http_method = ''POST'', json = True\<rparr>]\<rparr>)"
  by (simp add: acknowledge_def runtime_defs Let_def)

lemma acknowledge_unauthenticated:
  "acknowledge s ids (Inl err, out) w =
     (Inl err, w\<lparr>trace := trace w @
        [Log (LogAcknowledge s ids),
         ConsoleError ''Failed to get the default credentials'']\<rparr>)"
  by (simp add: acknowledge_def runtime_defs Let_def)

section \<open>modifyAckDeadline: milliseconds to seconds\<close>

text \<open>
  C7. The claim: for every deadline in milliseconds, \<^verbatim>\<open>modifyAckDeadline\<close> sends a
  field \<^verbatim>\<open>ackDeadlineSeconds\<close> that is a whole number of seconds, the deadline
  truncated or rounded. It fails: the code divides by 1000 and sends the quotient as it
  is, so a deadline of 1500 milliseconds is sent as 1.5.
\<close>

theorem modifyAckDeadline_seconds_counterexample:
  "map (\<lambda>r. ackDeadlineSeconds (body r))
     (requests_of (trace (snd (modifyAckDeadline ''jobs'' [''A1''] 1500 (succeeds ()) fresh))))
     = [Some (3 / 2)] \<and> (3 / 2 :: rat) \<notin> \<int>"
  by (simp add: modifyAckDeadline_authenticated succeeds_def fresh_def constructor_def
      seconds_1500)

text \<open>
  C7, as amended: for every deadline, every request that \<^verbatim>\<open>modifyAckDeadline\<close>
  sends (exactly one, once it has its credentials) carries in
  \<^verbatim>\<open>ackDeadlineSeconds\<close> the quotient of the deadline by 1000 as JavaScript computes
  it, the double nearest to the exact quotient, and nothing converts it to whole
  seconds. For a deadline of a whole number of milliseconds below \<open>2 ^ 53\<close> the field
  is a whole number exactly when the deadline is a multiple of 1000, and then it is
  that number of seconds.
\<close>

theorem modifyAckDeadline_seconds:
  "\<exists>rs. requests_of (trace (snd (modifyAckDeadline subscription ackIds ackDeadline io w)))
            = requests_of (trace w) @ rs
      \<and> (\<forall>r\<in>set rs. ackDeadlineSeconds (body r) = Some (divided_by_1000 ackDeadline))
      \<and> (\<forall>tok. fst io = Inr tok \<longrightarrow> length rs = 1)
      \<and> (\<forall>d. ackDeadline = of_int d \<longrightarrow> \<bar>d\<bar> < 2 ^ 53 \<longrightarrow>
            (\<forall>r\<in>set rs. \<exists>s. ackDeadlineSeconds (body r) = Some s
                \<and> (s \<in> \<int>) = (1000 dvd d)
                \<and> (1000 dvd d \<longrightarrow> s = of_int (d div 1000))))"
  by (cases io; cases "fst io")
     (simp_all add: modifyAckDeadline_authenticated modifyAckDeadline_unauthenticated
        requests_of_append divided_by_1000_whole)

theorem modifyAckDeadline_seconds_witness:
  "fst (succeeds () :: unit io) = Inr ''token'' \<and> \<bar>15000\<bar> < (2::int) ^ 53 \<and>
   (\<exists>r. requests_of (trace (snd (modifyAckDeadline ''jobs'' [''A1''] 15000 (succeeds ()) fresh)))
           = [r]
       \<and> ackDeadlineSeconds (body r) = Some 15)"
proof -
  have auth: "fst (succeeds () :: unit io) = Inr ''token''"
    by (simp add: succeeds_def)
  from modifyAckDeadline_seconds [of "''jobs''" "[''A1'']" 15000 "succeeds ()" fresh] auth
  show ?thesis
    by (auto simp: fresh_def constructor_def length_Suc_conv seconds_15000)
qed

section \<open>pullLongRunningJob\<close>

lemma received_Cons:
  assumes "received results = m # ms"
  obtains response where "results = Some response" "receivedMessages response = Some (m # ms)"
  using assms by (auto simp: received_def split: option.splits)

lemma received_Nil:
  assumes "received results = []"
  shows "results = None \<or> (\<exists>response. results = Some response
           \<and> (receivedMessages response = None \<or> receivedMessages response = Some []))"
  using assms by (auto simp: received_def split: option.splits)

lemma pullLongRunningJob_pull_fails:
  "pullLongRunningJob s opts (Inl err, out) io_extend w =
     (Inl err, snd (pull s True 1 (Inl err, out) w))"
  "pullLongRunningJob s opts (Inr tok, Inl err) io_extend w =
     (Inl err, snd (pull s True 1 (Inr tok, Inl err) w))"
  by (simp_all add: pullLongRunningJob_def pull_authenticated pull_unauthenticated Let_def)

lemma pullLongRunningJob_empty:
  assumes "received results = []"
  shows "pullLongRunningJob s opts (Inr tok, Inr results) io_extend w =
     (Inr None, this_log (LogReceived s results) (snd (pull s True 1 (Inr tok, Inr results) w)))"
  using received_Nil [OF assms]
  by (auto simp: pullLongRunningJob_def pull_authenticated Let_def)

lemma pullLongRunningJob_first:
  assumes "received results = m # ms"
  shows "\<exists>w5. pullLongRunningJob s opts (Inr tok, Inr results) io_extend w =
           (case modifyAckDeadline s [ackId m]
                   (case extendBy opts of None \<Rightarrow> 10000 | Some x \<Rightarrow> x) io_extend w5 of
              (Inl err, w6) \<Rightarrow> (Inl err, w6)
            | (Inr _, w6) \<Rightarrow>
                (Inr (Some (m\<lparr>message := (message m)
                   \<lparr>data := pull_decode (data (message m))\<rparr>\<rparr>)), w6))
         \<and> self w5 = (self w)\<lparr>longRunningJobTimers :=
                        (longRunningJobTimers (self w))(ackId m \<mapsto> next_timer w)\<rparr>
         \<and> intervals w5 = (intervals w)(next_timer w \<mapsto>
              \<lparr>job_subscription = s, job_ackId = ackId m,
               job_extendBy = (case extendBy opts of None \<Rightarrow> 10000 | Some x \<Rightarrow> x),
               job_period = (case withPeriod opts of None \<Rightarrow> 10000 | Some x \<Rightarrow> x)\<rparr>)
         \<and> next_timer w5 = Suc (next_timer w)
         \<and> objects w5 = objects w
         \<and> trace w5 = trace (snd (pull s True 1 (Inr tok, Inr results) w))
              @ [Log (LogReceived s results), Log (LogStarting s (ackId m)),
                 SetInterval (next_timer w)]"
  using assms
  apply (elim received_Cons)
  apply (simp add: pullLongRunningJob_def pull_authenticated Let_def runtime_defs)
  apply (intro exI conjI)
       apply (rule refl)
      apply simp_all
  done

lemma decode_hello: "pull_decode ''aGVsbG8='' = ''hello''"
  by code_simp

lemma started_A1_run:
  "pullLongRunningJob ''jobs'' scenario_options (succeeds (response_of [message_A1]))
     (succeeds ()) fresh
   = (Inr (Some \<lparr>ackId = ''A1'', message = \<lparr>data = ''hello'', attributes = []\<rparr>\<rparr>),
      started_A1)"
proof (rule prod_eqI)
  show "fst (pullLongRunningJob ''jobs'' scenario_options (succeeds (response_of [message_A1]))
          (succeeds ()) fresh)
      = fst (Inr (Some \<lparr>ackId = ''A1'', message = \<lparr>data = ''hello'', attributes = []\<rparr>\<rparr>),
             started_A1)"
    by (simp add: pullLongRunningJob_def pull_authenticated modifyAckDeadline_authenticated
        succeeds_def response_of_def message_A1_def scenario_options_def runtime_defs Let_def
        decode_hello)
qed (simp add: started_A1_def)



text \<open>
  C4. For every pull that returns no messages (a null response, a response without
  \<^verbatim>\<open>receivedMessages\<close>, or an empty array), \<^verbatim>\<open>pullLongRunningJob\<close> returns
  no value (\<open>Inr None\<close>: the promise resolves, it is not rejected), the registry and
  the running timers are what they were, no timer was handed out, and the only
  things done are the pull request and two log lines.
\<close>

theorem pullLongRunningJob_no_messages:
  assumes "received results = []"
  shows "\<exists>w' r. pullLongRunningJob subscription opts (Inr tok, Inr results) io_extend w
               = (Inr None, w')
           \<and> self w' = self w \<and> intervals w' = intervals w \<and> next_timer w' = next_timer w
           \<and> trace w' = trace w @ [Log (LogPull subscription r), Request r,
                                    Log (LogReceived subscription results)]"
  by (simp add: pullLongRunningJob_empty [OF assms] pull_authenticated runtime_defs Let_def)

theorem pullLongRunningJob_no_messages_witness:
  "received (response_of []) = [] \<and> received None = [] \<and>
   (\<exists>w'. pullLongRunningJob ''jobs'' scenario_options (Inr ''token'', Inr (response_of []))
            (succeeds ()) fresh = (Inr None, w')
        \<and> longRunningJobTimers (self w') = Map.empty \<and> intervals w' = Map.empty
        \<and> next_timer w' = 0 \<and> length (trace w') = 3)"
proof -
  have none: "received (response_of []) = []"
    by (simp add: received_def response_of_def)
  from pullLongRunningJob_no_messages [OF none, of "''jobs''" scenario_options "''token''"
      "succeeds ()" fresh] none
  show ?thesis
    by (auto simp: fresh_def constructor_def received_def)
qed

lemma modifyAckDeadline_trace:
  "\<exists>es. trace (snd (modifyAckDeadline s ids d io w)) = trace w @ es"
  by (cases io; cases "fst io";
      simp add: modifyAckDeadline_authenticated modifyAckDeadline_unauthenticated)

lemma modifyAckDeadline_cleared:
  "cleared_of (trace (snd (modifyAckDeadline s ids d io w))) = cleared_of (trace w)"
  by (cases io; cases "fst io";
      simp add: modifyAckDeadline_authenticated modifyAckDeadline_unauthenticated
        cleared_of_append)

lemma pullLongRunningJob_pull_request:
  "\<exists>r rs. requests_of (trace (snd (pullLongRunningJob s opts (Inr tok, out) io_extend w)))
            = requests_of (trace w) @ r # rs
         \<and> body r = PullBody True 1
         \<and> uri r = BASE_URL (self w) @ ''/'' @ formatSubscription (self w) s @ '':pull''"
proof (cases out)
  case (Inl err)
  then show ?thesis
    by (simp add: pullLongRunningJob_pull_fails pull_authenticated requests_of_append Let_def)
next
  case (Inr results)
  show ?thesis
  proof (cases "received results")
    case Nil
    then show ?thesis
      unfolding Inr
      by (simp add: pullLongRunningJob_empty pull_authenticated requests_of_append Let_def
          runtime_defs)
  next
    case (Cons m ms)
    from pullLongRunningJob_first [OF Cons, of s opts tok io_extend w]
    obtain w5 where
      run: "pullLongRunningJob s opts (Inr tok, Inr results) io_extend w =
           (case modifyAckDeadline s [ackId m]
                   (case extendBy opts of None \<Rightarrow> 10000 | Some x \<Rightarrow> x) io_extend w5 of
              (Inl err, w6) \<Rightarrow> (Inl err, w6)
            | (Inr _, w6) \<Rightarrow>
                (Inr (Some (m\<lparr>message := (message m)
                   \<lparr>data := pull_decode (data (message m))\<rparr>\<rparr>)), w6))"
      and w5: "trace w5 = trace (snd (pull s True 1 (Inr tok, Inr results) w))
              @ [Log (LogReceived s results), Log (LogStarting s (ackId m)),
                 SetInterval (next_timer w)]"
      by blast
    obtain es where es: "trace (snd (modifyAckDeadline s [ackId m]
        (case extendBy opts of None \<Rightarrow> 10000 | Some x \<Rightarrow> x) io_extend w5)) = trace w5 @ es"
      using modifyAckDeadline_trace by blast
    have "snd (pullLongRunningJob s opts (Inr tok, Inr results) io_extend w)
        = snd (modifyAckDeadline s [ackId m]
            (case extendBy opts of None \<Rightarrow> 10000 | Some x \<Rightarrow> x) io_extend w5)"
      unfolding run by (simp split: prod.splits sum.splits)
    then show ?thesis
      unfolding Inr
      by (simp add: es w5 pull_authenticated requests_of_append Let_def)
  qed
qed

lemma pullLongRunningJob_rest_ignored:
  "map_prod id without_log
     (pullLongRunningJob s opts (a, Inr (response_of (m # ms))) io_extend w)
   = map_prod id without_log
     (pullLongRunningJob s opts (a, Inr (response_of [m])) io_extend w)"
  by (cases a; cases io_extend; cases "fst io_extend"; cases "snd io_extend")
     (simp_all add: pullLongRunningJob_def pull_authenticated pull_unauthenticated
        modifyAckDeadline_authenticated modifyAckDeadline_unauthenticated
        response_of_def runtime_defs without_log_def Let_def)

lemma fresh_fields:
  "trace fresh = []" "intervals fresh = Map.empty" "next_timer fresh = 0"
  "longRunningJobTimers (self fresh) = Map.empty" "objects fresh = caller_objects"
  by (simp_all add: fresh_def constructor_def)

text \<open>
  C8. \<^verbatim>\<open>pullLongRunningJob\<close> always pulls with \<^verbatim>\<open>returnImmediately\<close> true and
  \<^verbatim>\<open>maxMessages\<close> 1: once it has its credentials, the first request it sends is the
  pull with that body. And it processes only the first message of a response: whatever
  messages \<open>ms\<close> follow the first message \<open>m\<close>, the value returned, the registry, the
  timers and the requests sent are those of a response that holds \<open>m\<close> alone (the two
  runs differ only in the log line that prints the response).
\<close>

theorem pullLongRunningJob_first_message_only:
  "(\<forall>tok. fst io_pull = Inr tok \<longrightarrow>
      (\<exists>r rs. requests_of (trace (snd (pullLongRunningJob subscription opts io_pull io_extend w)))
                = requests_of (trace w) @ r # rs
            \<and> body r = PullBody True 1
            \<and> uri r = BASE_URL (self w) @ ''/'' @ formatSubscription (self w) subscription
                 @ '':pull''))
   \<and> map_prod id without_log
        (pullLongRunningJob subscription opts (a, Inr (response_of (m # ms))) io_extend w)
     = map_prod id without_log
        (pullLongRunningJob subscription opts (a, Inr (response_of [m])) io_extend w)"
proof (intro conjI allI impI)
  fix tok
  assume "fst io_pull = Inr tok"
  then obtain out where "io_pull = (Inr tok, out)"
    by (cases io_pull) simp
  then show "\<exists>r rs. requests_of (trace (snd (pullLongRunningJob subscription opts io_pull
                 io_extend w))) = requests_of (trace w) @ r # rs
            \<and> body r = PullBody True 1
            \<and> uri r = BASE_URL (self w) @ ''/'' @ formatSubscription (self w) subscription
                 @ '':pull''"
    using pullLongRunningJob_pull_request by simp
qed (rule pullLongRunningJob_rest_ignored)

theorem pullLongRunningJob_first_message_only_witness:
  "fst (succeeds (response_of [message_A1, message_B2])) = Inr ''token''
   \<and> (\<exists>r rs. requests_of (trace (snd (pullLongRunningJob ''jobs'' scenario_options
                  (succeeds (response_of [message_A1, message_B2])) (succeeds ()) fresh)))
                = r # rs
            \<and> body r = PullBody True 1)
   \<and> map_prod id without_log
         (pullLongRunningJob ''jobs'' scenario_options
            (succeeds (response_of [message_A1, message_B2])) (succeeds ()) fresh)
       = (Inr (Some \<lparr>ackId = ''A1'', message = \<lparr>data = ''hello'', attributes = []\<rparr>\<rparr>),
          without_log started_A1)"
proof -
  have auth: "fst (succeeds (response_of [message_A1, message_B2])) = Inr ''token''"
    by (simp add: succeeds_def)
  from pullLongRunningJob_first_message_only
    [of "succeeds (response_of [message_A1, message_B2])" "''jobs''" scenario_options
        "succeeds ()" fresh "Inr ''token''" message_A1 "[message_B2]"]
  show ?thesis
    using auth started_A1_run by (auto simp: succeeds_def fresh_fields)
qed

section \<open>The renewal timer\<close>

lemma started_A1_fields:
  "longRunningJobTimers (self started_A1) = [''A1'' \<mapsto> 0]"
  "intervals started_A1 = [0 \<mapsto> \<lparr>job_subscription = ''jobs'', job_ackId = ''A1'',
       job_extendBy = 15000, job_period = 10000\<rparr>]"
  "next_timer started_A1 = 1"
  "cleared_of (trace started_A1) = []"
  "BASE_URL (self started_A1) = ''https://pubsub.googleapis.com/v1''"
  "project (self started_A1) = ''p''"
  "runtime started_A1 = example_runtime"
  by (simp_all add: started_A1_def pullLongRunningJob_def pull_authenticated
      modifyAckDeadline_authenticated succeeds_def response_of_def message_A1_def
      scenario_options_def runtime_defs Let_def fresh_def constructor_def)

lemma rejections_of_append: "rejections_of (xs @ ys) = rejections_of xs @ rejections_of ys"
  by (induction xs rule: rejections_of.induct) simp_all

lemma console_of_append: "console_of (xs @ ys) = console_of xs @ console_of ys"
  by (induction xs rule: console_of.induct) simp_all

lemma tick_run:
  assumes "intervals w t = Some cb"
  shows "tick t io w =
     Some (let r = modifyAckDeadline (job_subscription cb) [job_ackId cb] (job_extendBy cb) io
                     (this_log (LogLoop (job_subscription cb) (job_ackId cb)) w)
           in case fst r of Inl err \<Rightarrow> unhandled_rejection err (snd r) | Inr _ \<Rightarrow> snd r)"
  using assms by (simp add: tick_def Let_def split: prod.splits sum.splits)

lemma tick_fires: "intervals w t = Some cb \<Longrightarrow> \<exists>w'. tick t io w = Some w'"
  by (simp add: tick_run)

lemma tick_dead: "intervals w t = None \<Longrightarrow> tick t io w = None"
  by (simp add: tick_def)

text \<open>
  C9. The claim: a failure of a periodic renewal (an error of \<^verbatim>\<open>modifyAckDeadline\<close>
  in the timer callback) is reported through the injected log sink. It fails: the
  callback logs before it calls \<^verbatim>\<open>modifyAckDeadline\<close> and drops the promise it gets
  back, so the sink receives the same two lines when the request fails as when it
  succeeds, and none after the failure.
\<close>

theorem tick_failure_reported_counterexample:
  "map_option (logged_since started_A1)
     (tick 0 (Inr ''token'', Inl (RequestError ''ECONNRESET'')) started_A1)
     = Some [LogLoop ''jobs'' ''A1'', LogModifyAckDeadline ''jobs'' [''A1''] 15000]
   \<and> map_option (logged_since started_A1) (tick 0 (succeeds ()) started_A1)
     = Some [LogLoop ''jobs'' ''A1'', LogModifyAckDeadline ''jobs'' [''A1''] 15000]"
  by (simp add: started_A1_fields tick_def modifyAckDeadline_authenticated succeeds_def
      runtime_defs Let_def logged_since_def unhandled_rejection_def example_runtime_def)

text \<open>
  C9, as amended: a failure of a periodic renewal, at the credentials or at the request,
  is not reported through the injected log sink: the sink receives the two lines written
  before the request, as for a tick that succeeds. A failure at the credentials is
  written on \<^verbatim>\<open>console.error\<close> by \<^verbatim>\<open>addAuthentication\<close>; a failure of the
  request is written nowhere. The callback drops the rejected promise, so the failure
  does not reach the caller of \<^verbatim>\<open>pullLongRunningJob\<close>: it becomes an unhandled
  rejection of the process. The tick leaves the registry as it was. On a runtime that
  goes on after an unhandled rejection the timer keeps running and the next tick can
  fire; on a runtime that ends the process, no timer fires any more.
\<close>

theorem tick_failure_dropped:
  assumes "intervals w t = Some cb"
  shows "\<exists>w'. tick t io w = Some w'
           \<and> logged_since w w' =
               [LogLoop (job_subscription cb) (job_ackId cb),
                LogModifyAckDeadline (job_subscription cb) [job_ackId cb] (job_extendBy cb)]
           \<and> self w' = self w
           \<and> console_of (trace w') = console_of (trace w) @
               (case fst io of
                  Inl _ \<Rightarrow> [''Failed to get the default credentials'']
                | Inr _ \<Rightarrow> [])
           \<and> (case failure io of
                None \<Rightarrow>
                  rejections_of (trace w') = rejections_of (trace w)
                  \<and> intervals w' = intervals w \<and> (\<forall>io'. tick t io' w' \<noteq> None)
              | Some err \<Rightarrow>
                  rejections_of (trace w') = rejections_of (trace w) @ [err]
                  \<and> (case unhandled_rejections (runtime w) of
                        Warn \<Rightarrow> intervals w' = intervals w \<and> (\<forall>io'. tick t io' w' \<noteq> None)
                      | Throw \<Rightarrow> (\<forall>t' io'. tick t' io' w' = None)))"
proof -
  obtain a out where io: "io = (a, out)"
    by (cases io)
  show ?thesis
    unfolding io
    by (cases a; cases out; cases "unhandled_rejections (runtime w)")
       (simp_all add: tick_run [OF assms] assms tick_fires tick_dead
          modifyAckDeadline_authenticated
          modifyAckDeadline_unauthenticated runtime_defs Let_def logged_since_def
          unhandled_rejection_def rejections_of_append console_of_append)
qed

theorem tick_failure_dropped_witness:
  "intervals started_A1 0 = Some \<lparr>job_subscription = ''jobs'', job_ackId = ''A1'',
       job_extendBy = 15000, job_period = 10000\<rparr>
   \<and> intervals started_A1_strict 0 = Some \<lparr>job_subscription = ''jobs'', job_ackId = ''A1'',
       job_extendBy = 15000, job_period = 10000\<rparr>
   \<and> (\<exists>w'. tick 0 (Inr ''token'', Inl (RequestError ''ECONNRESET'')) started_A1 = Some w'
         \<and> logged_since started_A1 w' =
              [LogLoop ''jobs'' ''A1'', LogModifyAckDeadline ''jobs'' [''A1''] 15000]
         \<and> longRunningJobTimers (self w') ''A1'' = Some 0
         \<and> rejections_of (trace w') = [RequestError ''ECONNRESET'']
         \<and> console_of (trace w') = []
         \<and> tick 0 (succeeds ()) w' \<noteq> None)
   \<and> (\<exists>w'. tick 0 (Inr ''token'', Inl (RequestError ''ECONNRESET'')) started_A1_strict = Some w'
         \<and> logged_since started_A1_strict w' =
              [LogLoop ''jobs'' ''A1'', LogModifyAckDeadline ''jobs'' [''A1''] 15000]
         \<and> longRunningJobTimers (self w') ''A1'' = Some 0
         \<and> rejections_of (trace w') = [RequestError ''ECONNRESET'']
         \<and> tick 0 (succeeds ()) w' = None)
   \<and> (\<exists>w'. tick 0 (Inl (AuthError ''no credentials''), Inr ()) started_A1 = Some w'
         \<and> logged_since started_A1 w' =
              [LogLoop ''jobs'' ''A1'', LogModifyAckDeadline ''jobs'' [''A1''] 15000]
         \<and> rejections_of (trace w') = [AuthError ''no credentials'']
         \<and> console_of (trace w') = [''Failed to get the default credentials''])"
proof -
  have live: "intervals started_A1 0 = Some \<lparr>job_subscription = ''jobs'', job_ackId = ''A1'',
       job_extendBy = 15000, job_period = 10000\<rparr>"
    and strict: "intervals started_A1_strict 0 = Some \<lparr>job_subscription = ''jobs'',
       job_ackId = ''A1'', job_extendBy = 15000, job_period = 10000\<rparr>"
    by (simp_all add: started_A1_fields started_A1_strict_def)
  have none: "rejections_of (trace started_A1) = []" "console_of (trace started_A1) = []"
    by (simp_all add: started_A1_def pullLongRunningJob_def pull_authenticated
        modifyAckDeadline_authenticated succeeds_def response_of_def message_A1_def
        scenario_options_def runtime_defs Let_def fresh_def constructor_def)
  from tick_failure_dropped [OF live, of "(Inr ''token'', Inl (RequestError ''ECONNRESET''))"]
    tick_failure_dropped [OF strict, of "(Inr ''token'', Inl (RequestError ''ECONNRESET''))"]
    tick_failure_dropped [OF live, of "(Inl (AuthError ''no credentials''), Inr ())"]
  show ?thesis
    using live strict
    by (auto simp: started_A1_fields started_A1_strict_def succeeds_def example_runtime_def none)
qed

section \<open>acknowledgeLongRunningJob\<close>




lemma longRunningJobTimers_get_own:
  "longRunningJobTimers (self w) k = Some t \<Longrightarrow> longRunningJobTimers_get w k = Timeout t"
  by (simp add: longRunningJobTimers_get_def)


lemma longRunningJobTimers_get_trace [simp]:
  "longRunningJobTimers_get (w\<lparr>trace := es\<rparr>) k = longRunningJobTimers_get w k"
  by (simp add: longRunningJobTimers_get_def split: option.splits js_value.splits)

lemma clearInterval_frame [simp]:
  "self (clearInterval v w) = self w"
  "next_timer (clearInterval v w) = next_timer w"
  "objects (clearInterval v w) = objects w"
  "runtime (clearInterval v w) = runtime w"
  by (cases v; simp add: emit_def)+


lemma started_A1_twice_fields:
  "longRunningJobTimers (self started_A1_twice) = [''A1'' \<mapsto> 1]"
  "intervals started_A1_twice =
     [0 \<mapsto> \<lparr>job_subscription = ''jobs'', job_ackId = ''A1'',
             job_extendBy = 15000, job_period = 10000\<rparr>,
      1 \<mapsto> \<lparr>job_subscription = ''jobs'', job_ackId = ''A1'',
             job_extendBy = 15000, job_period = 10000\<rparr>]"
  "cleared_of (trace started_A1_twice) = []"
  "BASE_URL (self started_A1_twice) = ''https://pubsub.googleapis.com/v1''"
  "project (self started_A1_twice) = ''p''"
  by (simp_all add: started_A1_twice_def pullLongRunningJob_def pull_authenticated
      modifyAckDeadline_authenticated succeeds_def response_of_def message_A1_def
      scenario_options_def runtime_defs Let_def started_A1_fields cleared_of_append)

lemma acknowledged_A1_fields:
  "longRunningJobTimers (self acknowledged_A1) = Map.empty"
  "intervals acknowledged_A1 =
     [0 \<mapsto> \<lparr>job_subscription = ''jobs'', job_ackId = ''A1'',
             job_extendBy = 15000, job_period = 10000\<rparr>]"
  "cleared_of (trace acknowledged_A1) = [1]"
  "BASE_URL (self acknowledged_A1) = ''https://pubsub.googleapis.com/v1''"
  "project (self acknowledged_A1) = ''p''"
  by (simp_all add: acknowledged_A1_def acknowledgeLongRunningJob_def
      acknowledge_authenticated succeeds_def runtime_defs Let_def started_A1_twice_fields
      cleared_of_append longRunningJobTimers_get_def longRunningJobTimers_delete_def)






text \<open>
  For a handle the registry holds, \<^verbatim>\<open>acknowledgeLongRunningJob\<close> clears the timer of
  the entry and removes the entry (under \<^verbatim>\<open>__proto__\<close> the entry is the prototype,
  and stays) before it logs and sends the acknowledge request; from then on that timer
  cannot fire.
\<close>

theorem acknowledgeLongRunningJob_deregisters_first:
  assumes "longRunningJobTimers (self w) h = Some t"
  shows "\<exists>w' rest. snd (acknowledgeLongRunningJob subscription h io w) = w'
           \<and> trace w' = trace w @ [Log (LogStopping subscription h), ClearInterval t,
                                    Log (LogAcknowledge subscription [h])] @ rest
           \<and> requests_of rest = (case fst io of Inl err \<Rightarrow> [] | Inr tok \<Rightarrow>
                [\<lparr>uri = BASE_URL (self w) @ ''/'' @ formatSubscription (self w) subscription
                        @ '':acknowledge'',
                  headers = [(''Authorization'', ''Bearer '' @ tok)],
                  body = AcknowledgeBody [h], http_method = ''POST'', json = True\<rparr>])
           \<and> longRunningJobTimers (self w') h = (if h = ''__proto__'' then Some t else None)
           \<and> intervals w' t = None
           \<and> (\<forall>io'. tick t io' w' = None)"
  using assms
  by (cases io; cases "fst io")
     (auto simp: acknowledgeLongRunningJob_def acknowledge_authenticated
        acknowledge_unauthenticated runtime_defs Let_def tick_def formatSubscription_def
        longRunningJobTimers_get_own longRunningJobTimers_delete_def)

theorem acknowledgeLongRunningJob_deregisters_first_witness:
  "longRunningJobTimers (self started_A1) ''A1'' = Some 0
   \<and> (\<exists>rest. trace (snd (acknowledgeLongRunningJob ''jobs'' ''A1'' (succeeds ()) started_A1))
         = trace started_A1 @ [Log (LogStopping ''jobs'' ''A1''), ClearInterval 0,
                               Log (LogAcknowledge ''jobs'' [''A1''])] @ rest
       \<and> map body (requests_of rest) = [AcknowledgeBody [''A1'']])
   \<and> tick 0 (succeeds ())
        (snd (acknowledgeLongRunningJob ''jobs'' ''A1'' (succeeds ()) started_A1)) = None"
proof -
  have reg: "longRunningJobTimers (self started_A1) ''A1'' = Some 0"
    by (simp add: started_A1_fields)
  from acknowledgeLongRunningJob_deregisters_first [OF reg, of "''jobs''" "succeeds ()"]
  show ?thesis
    using reg by (auto simp: succeeds_def)
qed

section \<open>A handle registered twice\<close>

text \<open>
  C1. The claim: when a handle that is already registered is registered again, the
  operation either rejects or cancels the timer of the prior registration before it
  replaces the entry, so that no timer is left running without a registry reference.
  The code does neither. After two pulls that both return a message with ackId
  \<open>A1\<close>, the registry holds the second timer under \<open>A1\<close>; the first timer is
  still running with its closure for \<open>A1\<close>, no timer has been cleared, and no entry
  of the registry refers to the first timer.
\<close>

theorem duplicate_registration_leaks_timer:
  "longRunningJobTimers (self started_A1) ''A1'' = Some 0
   \<and> longRunningJobTimers (self started_A1_twice) = [''A1'' \<mapsto> 1]
   \<and> intervals started_A1_twice 0 = Some \<lparr>job_subscription = ''jobs'', job_ackId = ''A1'',
         job_extendBy = 15000, job_period = 10000\<rparr>
   \<and> cleared_of (trace started_A1_twice) = []
   \<and> 0 \<notin> ran (longRunningJobTimers (self started_A1_twice))"
  by (simp add: started_A1_fields started_A1_twice_fields)

text \<open>
  The same for every world and every response: when a pull returns a first message
  whose ackId the registry already holds with a running timer, the entry is replaced
  by the new timer, the old timer keeps running, and nothing is cleared.
\<close>

theorem pullLongRunningJob_overwrites_without_clearing:
  assumes "longRunningJobTimers (self w) (ackId m) = Some t"
    and "intervals w t = Some cb"
    and "t \<noteq> next_timer w"
    and "received results = m # ms"
  shows "\<exists>w'. snd (pullLongRunningJob subscription opts (Inr tok, Inr results) io_extend w) = w'
           \<and> longRunningJobTimers (self w') (ackId m) = Some (next_timer w)
           \<and> intervals w' t = Some cb
           \<and> cleared_of (trace w') = cleared_of (trace w)"
proof -
  from pullLongRunningJob_first [OF assms(4), of subscription opts tok io_extend w]
  obtain w5 where
    run: "pullLongRunningJob subscription opts (Inr tok, Inr results) io_extend w =
           (case modifyAckDeadline subscription [ackId m]
                   (case extendBy opts of None \<Rightarrow> 10000 | Some x \<Rightarrow> x) io_extend w5 of
              (Inl err, w6) \<Rightarrow> (Inl err, w6)
            | (Inr _, w6) \<Rightarrow>
                (Inr (Some (m\<lparr>message := (message m)
                   \<lparr>data := pull_decode (data (message m))\<rparr>\<rparr>)), w6))"
    and w5: "self w5 = (self w)\<lparr>longRunningJobTimers :=
                        (longRunningJobTimers (self w))(ackId m \<mapsto> next_timer w)\<rparr>"
      "intervals w5 = (intervals w)(next_timer w \<mapsto>
              \<lparr>job_subscription = subscription, job_ackId = ackId m,
               job_extendBy = (case extendBy opts of None \<Rightarrow> 10000 | Some x \<Rightarrow> x),
               job_period = (case withPeriod opts of None \<Rightarrow> 10000 | Some x \<Rightarrow> x)\<rparr>)"
      "trace w5 = trace (snd (pull subscription True 1 (Inr tok, Inr results) w))
              @ [Log (LogReceived subscription results),
                 Log (LogStarting subscription (ackId m)), SetInterval (next_timer w)]"
    by blast
  have "snd (pullLongRunningJob subscription opts (Inr tok, Inr results) io_extend w)
      = snd (modifyAckDeadline subscription [ackId m]
          (case extendBy opts of None \<Rightarrow> 10000 | Some x \<Rightarrow> x) io_extend w5)"
    unfolding run by (simp split: prod.splits sum.splits)
  then show ?thesis
    using assms(2,3)
    by (simp add: modifyAckDeadline_frame modifyAckDeadline_cleared w5 pull_authenticated
        cleared_of_append Let_def)
qed

theorem pullLongRunningJob_overwrites_without_clearing_witness:
  "longRunningJobTimers (self started_A1) (ackId message_A1) = Some 0
   \<and> 0 \<noteq> next_timer started_A1
   \<and> received (response_of [message_A1]) = [message_A1]
   \<and> longRunningJobTimers (self started_A1_twice) ''A1'' = Some 1
   \<and> intervals started_A1_twice 0 = Some \<lparr>job_subscription = ''jobs'', job_ackId = ''A1'',
         job_extendBy = 15000, job_period = 10000\<rparr>
   \<and> cleared_of (trace started_A1_twice) = []"
proof -
  have reg: "longRunningJobTimers (self started_A1) (ackId message_A1) = Some 0"
    and live: "intervals started_A1 0 = Some \<lparr>job_subscription = ''jobs'', job_ackId = ''A1'',
         job_extendBy = 15000, job_period = 10000\<rparr>"
    and other: "0 \<noteq> next_timer started_A1"
    and one: "received (response_of [message_A1]) = [message_A1]"
    by (simp_all add: started_A1_fields message_A1_def received_def response_of_def)
  from pullLongRunningJob_overwrites_without_clearing [OF reg live other one,
      of "''jobs''" scenario_options "''token''" "succeeds ()"]
  show ?thesis
    using reg other one
    by (simp add: started_A1_twice_def succeeds_def started_A1_fields message_A1_def)
qed

text \<open>
  C5. The claim: in every execution of \<^verbatim>\<open>acknowledgeLongRunningJob\<close> for a
  registered handle, deregistration happens before the acknowledge call, and no renewal
  tick for that handle can fire after the acknowledge call starts. The code breaks the
  second half for a handle that was registered twice: \<^verbatim>\<open>acknowledgeLongRunningJob\<close>
  clears the timer the registry holds, the second one; the first timer was never
  cleared, and after the acknowledge request it still fires and sends
  \<^verbatim>\<open>modifyAckDeadline\<close> for \<open>A1\<close>.
\<close>

theorem acknowledged_job_still_renewed:
  "longRunningJobTimers (self acknowledged_A1) ''A1'' = None
   \<and> cleared_of (trace acknowledged_A1) = [1]
   \<and> map_option (\<lambda>w'. drop (length (trace acknowledged_A1)) (trace w'))
        (tick 0 (succeeds ()) acknowledged_A1)
     = Some [Log (LogLoop ''jobs'' ''A1''),
             Log (LogModifyAckDeadline ''jobs'' [''A1''] 15000),
             Request \<lparr>uri = ''https://pubsub.googleapis.com/v1/projects/p/subscriptions/jobs:modifyAckDeadline'',
                      headers = [(''Authorization'', ''Bearer token'')],
                      body = ModifyAckDeadlineBody [''A1''] 15,
                      http_method = ''POST'', json = True\<rparr>]"
  by (simp add: acknowledged_A1_fields tick_def modifyAckDeadline_authenticated succeeds_def
      runtime_defs Let_def formatSubscription_def seconds_15000)

section \<open>publish\<close>

lemma encode_in_place_frame:
  "self (fold encode_in_place ms w) = self w"
  "intervals (fold encode_in_place ms w) = intervals w"
  "next_timer (fold encode_in_place ms w) = next_timer w"
  "trace (fold encode_in_place ms w) = trace w"
  by (induction ms arbitrary: w; simp add: encode_in_place_def)+

lemma encode_in_place_objects:
  "objects (fold encode_in_place ms w) a =
     (objects w a)\<lparr>data := (publish_encode ^^ count_list ms a) (data (objects w a))\<rparr>"
proof (induction ms arbitrary: w)
  case Nil
  show ?case by simp
next
  case (Cons m ms)
  have "objects (fold encode_in_place (m # ms) w) a
      = objects (fold encode_in_place ms (encode_in_place m w)) a"
    by simp
  also have "\<dots> = (objects (encode_in_place m w) a)
      \<lparr>data := (publish_encode ^^ count_list ms a) (data (objects (encode_in_place m w) a))\<rparr>"
    by (rule Cons.IH)
  also have "\<dots> = (objects w a)
      \<lparr>data := (publish_encode ^^ count_list (m # ms) a) (data (objects w a))\<rparr>"
    by (simp add: encode_in_place_def funpow_swap1)
  finally show ?case .
qed

lemma encode_hello: "publish_encode ''hello'' = ''aGVsbG8=''"
  by code_simp

text \<open>
  C10. \<^verbatim>\<open>publish\<close> mutates the message objects of its caller. In every call that
  obtains its credentials, the field \<^verbatim>\<open>data\<close> of each element of \<open>messages\<close> is
  overwritten with the base64 encoding of the value it held (once for each time the
  object occurs in the array, so exactly once when the elements are distinct objects),
  every other field of every object stays as it was, and the one request sent afterwards
  carries the encoded messages; the objects stay encoded whatever the outcome of the
  request. A call that does not obtain its credentials sends no request and changes no
  object.
\<close>

theorem publish_encodes_in_place:
  "\<exists>w'. snd (publish topic messages io w) = w'
     \<and> (case fst io of
          Inl err \<Rightarrow> objects w' = objects w \<and> requests_of (trace w') = requests_of (trace w)
        | Inr tok \<Rightarrow>
            (\<forall>a. objects w' a = (objects w a)
                  \<lparr>data := (publish_encode ^^ count_list messages a) (data (objects w a))\<rparr>)
          \<and> (distinct messages \<longrightarrow>
                (\<forall>a\<in>set messages. objects w' a =
                   (objects w a)\<lparr>data := publish_encode (data (objects w a))\<rparr>))
          \<and> (\<exists>r. trace w' = trace w @ [Request r]
                 \<and> body r = PublishBody (map (objects w') messages)))"
proof -
  have once: "distinct messages \<Longrightarrow> a \<in> set messages \<Longrightarrow> count_list messages a = 1" for a
    by (induction messages) auto
  show ?thesis
    by (cases io; cases "fst io")
       (simp_all add: publish_def runtime_defs Let_def encode_in_place_frame
          encode_in_place_objects once requests_of_append)
qed

theorem publish_encodes_in_place_witness:
  "fst (succeeds [''1''] :: string list io) = Inr ''token'' \<and>
   objects fresh 0 = \<lparr>data = ''hello'', attributes = [(''kind'', ''greeting'')]\<rparr> \<and>
   objects (snd (publish ''t'' [0] (succeeds [''1'']) fresh)) 0
     = \<lparr>data = ''aGVsbG8='', attributes = [(''kind'', ''greeting'')]\<rparr> \<and>
   map body (requests_of (trace (snd (publish ''t'' [0] (succeeds [''1'']) fresh))))
     = [PublishBody [\<lparr>data = ''aGVsbG8='', attributes = [(''kind'', ''greeting'')]\<rparr>]]"
proof -
  have auth: "fst (succeeds [''1''] :: string list io) = Inr ''token''"
    by (simp add: succeeds_def)
  from publish_encodes_in_place [of "''t''" "[0]" "succeeds [''1'']" fresh] auth
  show ?thesis
    by (auto simp: fresh_fields caller_objects_def encode_hello)
qed

end
